theory Spec2Isabelle
  imports Main
begin

section \<open>autoyear: the copyright formatter of \<open>src/index.tsx\<close>\<close>

text \<open>
  The module exports two components (\<open>AutoYear\<close>, \<open>Copyright\<close>) and two hooks
  (\<open>useAutoYear\<close>, \<open>useCopyright\<close>). Each of them evaluates
  \<^verbatim>\<open>new Date().getFullYear()\<close> in its own body, so the model passes the object that
  \<^verbatim>\<open>new Date()\<close> yields at the call as an explicit first argument.

  Conventions of the embedding:
  \<^item> a TypeScript \<open>string\<close> is a \<open>string\<close> holding the UTF-8 bytes of the text; the
    code only tests strings for emptiness and concatenates them, and both commute with
    the encoding. The default prefix, the copyright sign U+00A9, is the two bytes
    \<open>0xC2 0xA9\<close>;
  \<^item> an optional property (\<open>name?: string\<close>) is an \<open>option\<close>, \<open>None\<close> being
    \<open>undefined\<close>;
  \<^item> \<open>startYear\<close> and the year are integers (\<open>int\<close>). A TypeScript \<open>number\<close> is a
    double, and its conversion to a string prints the exact decimal digits of an integer
    only up to the magnitude \<open>2^53\<close>: above it the digits are the shortest ones that
    read back as the same double, filled with zeros, and from \<open>10^21\<close> on the
    exponent form. The model prints exact decimal digits, so a statement that prints a
    number the caller supplies carries the bound \<open>\<bar>n\<bar> \<le> 2^53\<close>. The year read from a
    \<open>Date\<close> is far inside that range.
\<close>

subsection \<open>The host's primitives\<close>

text \<open>The local calendar fields of a \<open>Date\<close> object; \<open>getFullYear\<close> reads the first.\<close>

record Date =
  fullYear :: int
  month :: nat
  date :: nat

definition getFullYear :: "Date \<Rightarrow> int" where
  "getFullYear d = fullYear d"

text \<open>
  \<open>Number.prototype.toString\<close> on an integer \<open>i\<close> with \<open>\<bar>i\<bar> \<le> 2^53\<close>: its decimal
  digits, behind a minus sign when it is negative. Outside that range the host prints
  other digits, and \<open>number_toString\<close> is not its model there.
\<close>

definition digit_char :: "nat \<Rightarrow> char" where
  "digit_char d = ''0123456789'' ! d"

fun nat_toString :: "nat \<Rightarrow> string" where
  "nat_toString n =
     (if n < 10 then [digit_char n]
      else nat_toString (n div 10) @ [digit_char (n mod 10)])"

declare nat_toString.simps [simp del]

definition number_toString :: "int \<Rightarrow> string" where
  "number_toString i =
     (if i < 0 then ''-'' @ nat_toString (nat (- i)) else nat_toString (nat i))"

text \<open>
  \<open>Boolean(v)\<close> on a value of type \<open>string | undefined\<close>: \<open>undefined\<close> and the empty
  string are falsy, every other string is truthy.
\<close>

definition ToBoolean :: "string option \<Rightarrow> bool" where
  "ToBoolean v = (case v of None \<Rightarrow> False | Some s \<Rightarrow> s \<noteq> [])"

text \<open>
  \<open>Array.prototype.join\<close>: the elements in order, the separator between two
  neighbours, an \<open>undefined\<close> element printed as the empty string.
\<close>

definition join_element :: "string option \<Rightarrow> string" where
  "join_element v = (case v of None \<Rightarrow> [] | Some s \<Rightarrow> s)"

fun join :: "string option list \<Rightarrow> string \<Rightarrow> string" where
  "join [] sep = []"
| "join [x] sep = join_element x"
| "join (x # y # ys) sep = join_element x @ sep @ join (y # ys) sep"

text \<open>The string literal of the default prefix: the one character U+00A9, in UTF-8.\<close>

definition copyright_sign :: string where
  "copyright_sign = [CHR 0xC2, CHR 0xA9]"

subsection \<open>Props, options and elements\<close>

type_synonym CSSProperties = "(string \<times> string) list"

text \<open>
  \<open>AutoYearProps\<close>; the property \<open>as\<close> is the field \<open>as_tag\<close>. \<open>CopyrightProps\<close>
  extends it. Its four formatting fields carry the names of \<open>UseCopyrightOptions\<close> in
  the source; here they end in \<open>_prop\<close> to keep the two records apart.
\<close>

record AutoYearProps =
  as_tag :: "string option"
  className :: "string option"
  style :: "CSSProperties option"

record CopyrightProps = AutoYearProps +
  prefix_prop :: "string option"
  name_prop :: "string option"
  startYear_prop :: "int option"
  separator_prop :: "string option"

record UseCopyrightOptions =
  prefix :: "string option"
  name :: "string option"
  startYear :: "int option"
  separator :: "string option"

text \<open>What \<open>React.createElement(Component, { className, style }, text)\<close> returns.\<close>

record ReactElement =
  element_type :: string
  props_className :: "string option"
  props_style :: "CSSProperties option"
  children :: string

definition createElement ::
  "string \<Rightarrow> string option \<Rightarrow> CSSProperties option \<Rightarrow> string \<Rightarrow> ReactElement" where
  "createElement Component cn st text =
     \<lparr>element_type = Component, props_className = cn, props_style = st, children = text\<rparr>"

subsection \<open>The exported functions\<close>

definition AutoYear :: "Date \<Rightarrow> AutoYearProps \<Rightarrow> ReactElement" where
  "AutoYear now props =
     (let Component = (case as_tag props of None \<Rightarrow> ''span'' | Some t \<Rightarrow> t);
          year = getFullYear now
      in createElement Component (className props) (style props) (number_toString year))"

text \<open>
  Lines 89 to 92. \<open>startYear && startYear < currentYear\<close> is truthy when \<open>startYear\<close>
  is neither \<open>undefined\<close> nor the number \<open>0\<close> and is below \<open>currentYear\<close>.
\<close>

definition Copyright_yearDisplay :: "int option \<Rightarrow> int \<Rightarrow> string" where
  "Copyright_yearDisplay startYear' currentYear =
     (case startYear' of
        None \<Rightarrow> number_toString currentYear
      | Some s \<Rightarrow>
          if s \<noteq> 0 \<and> s < currentYear
          then number_toString s @ ''-'' @ number_toString currentYear
          else number_toString currentYear)"

text \<open>Line 94.\<close>

definition Copyright_parts :: "string \<Rightarrow> string \<Rightarrow> string option \<Rightarrow> string option list" where
  "Copyright_parts prefix' yearDisplay name' =
     filter ToBoolean [Some prefix', Some yearDisplay, name']"

definition Copyright :: "Date \<Rightarrow> CopyrightProps \<Rightarrow> ReactElement" where
  "Copyright now props =
     (let Component = (case as_tag props of None \<Rightarrow> ''span'' | Some t \<Rightarrow> t);
          prefix' = (case prefix_prop props of None \<Rightarrow> copyright_sign | Some p \<Rightarrow> p);
          separator' = (case separator_prop props of None \<Rightarrow> '' '' | Some s \<Rightarrow> s);
          currentYear = getFullYear now;
          yearDisplay = Copyright_yearDisplay (startYear_prop props) currentYear;
          parts = Copyright_parts prefix' yearDisplay (name_prop props);
          text = join parts separator'
      in createElement Component (className props) (style props) text)"

definition useAutoYear :: "Date \<Rightarrow> int" where
  "useAutoYear now = getFullYear now"

text \<open>Lines 156 to 159, the same expression as in \<open>Copyright\<close>.\<close>

definition useCopyright_yearDisplay :: "int option \<Rightarrow> int \<Rightarrow> string" where
  "useCopyright_yearDisplay startYear' currentYear =
     (case startYear' of
        None \<Rightarrow> number_toString currentYear
      | Some s \<Rightarrow>
          if s \<noteq> 0 \<and> s < currentYear
          then number_toString s @ ''-'' @ number_toString currentYear
          else number_toString currentYear)"

text \<open>Line 161.\<close>

definition useCopyright_parts :: "string \<Rightarrow> string \<Rightarrow> string option \<Rightarrow> string option list" where
  "useCopyright_parts prefix' yearDisplay name' =
     filter ToBoolean [Some prefix', Some yearDisplay, name']"

text \<open>The object \<open>{}\<close> that the parameter \<open>options\<close> defaults to.\<close>

definition empty_options :: UseCopyrightOptions where
  "empty_options = \<lparr>prefix = None, name = None, startYear = None, separator = None\<rparr>"

text \<open>\<open>useCopyright\<close>; the argument is \<open>None\<close> when the caller passes none.\<close>

definition useCopyright :: "Date \<Rightarrow> UseCopyrightOptions option \<Rightarrow> string" where
  "useCopyright now options_arg =
     (let options = (case options_arg of None \<Rightarrow> empty_options | Some v \<Rightarrow> v);
          prefix' = (case prefix options of None \<Rightarrow> copyright_sign | Some p \<Rightarrow> p);
          separator' = (case separator options of None \<Rightarrow> '' '' | Some s \<Rightarrow> s);
          currentYear = getFullYear now;
          yearDisplay = useCopyright_yearDisplay (startYear options) currentYear;
          parts = useCopyright_parts prefix' yearDisplay (name options)
      in join parts separator')"

subsection \<open>Facts about the primitives\<close>

lemma nat_toString_not_Nil: "nat_toString n \<noteq> []"
  by (subst nat_toString.simps) simp

lemma number_toString_not_Nil: "number_toString i \<noteq> []"
  by (simp add: number_toString_def nat_toString_not_Nil)

lemma copyright_sign_not_Nil: "copyright_sign \<noteq> []"
  by (simp add: copyright_sign_def)

lemma useCopyright_yearDisplay_not_Nil: "useCopyright_yearDisplay sy y \<noteq> []"
  by (simp add: useCopyright_yearDisplay_def number_toString_not_Nil split: option.split)

lemma Copyright_yearDisplay_not_Nil: "Copyright_yearDisplay sy y \<noteq> []"
  by (simp add: Copyright_yearDisplay_def number_toString_not_Nil split: option.split)

lemma number_toString_2020: "number_toString 2020 = ''2020''"
  by code_simp

lemma number_toString_2024: "number_toString 2024 = ''2024''"
  by code_simp

lemma number_toString_2026: "number_toString 2026 = ''2026''"
  by code_simp

text \<open>The hook, with its local constants written out.\<close>

lemma useCopyright_Some:
  "useCopyright now (Some opts) =
     join (useCopyright_parts
             (case prefix opts of None \<Rightarrow> copyright_sign | Some p \<Rightarrow> p)
             (useCopyright_yearDisplay (startYear opts) (getFullYear now))
             (name opts))
          (case separator opts of None \<Rightarrow> '' '' | Some s \<Rightarrow> s)"
  by (simp add: useCopyright_def Let_def)

lemma useCopyright_None: "useCopyright now None = useCopyright now (Some empty_options)"
  by (simp add: useCopyright_def)

lemma children_Copyright:
  "children (Copyright now props) =
     join (Copyright_parts
             (case prefix_prop props of None \<Rightarrow> copyright_sign | Some p \<Rightarrow> p)
             (Copyright_yearDisplay (startYear_prop props) (getFullYear now))
             (name_prop props))
          (case separator_prop props of None \<Rightarrow> '' '' | Some s \<Rightarrow> s)"
  by (simp add: Copyright_def createElement_def Let_def)

text \<open>
  Joining the kept parts of a three-element array whose middle element is not empty:
  the four cases of a kept or dropped first and last element.
\<close>

lemma join_kept_parts:
  assumes "yd \<noteq> []"
  shows "join (filter ToBoolean [Some p, Some yd, n]) sep =
           (if p = [] then [] else p @ sep) @ yd @
           (case n of None \<Rightarrow> [] | Some s \<Rightarrow> if s = [] then [] else sep @ s)"
  using assms by (cases n) (simp_all add: ToBoolean_def join_element_def)

lemma join_useCopyright_parts:
  "yd \<noteq> [] \<Longrightarrow>
   join (useCopyright_parts p yd n) sep =
     (if p = [] then [] else p @ sep) @ yd @
     (case n of None \<Rightarrow> [] | Some s \<Rightarrow> if s = [] then [] else sep @ s)"
  unfolding useCopyright_parts_def by (rule join_kept_parts)

lemma join_Copyright_parts:
  "yd \<noteq> [] \<Longrightarrow>
   join (Copyright_parts p yd n) sep =
     (if p = [] then [] else p @ sep) @ yd @
     (case n of None \<Rightarrow> [] | Some s \<Rightarrow> if s = [] then [] else sep @ s)"
  unfolding Copyright_parts_def by (rule join_kept_parts)

lemma useCopyright_closed:
  "useCopyright now (Some opts) =
     (if (case prefix opts of None \<Rightarrow> copyright_sign | Some p \<Rightarrow> p) = [] then []
      else (case prefix opts of None \<Rightarrow> copyright_sign | Some p \<Rightarrow> p) @
           (case separator opts of None \<Rightarrow> '' '' | Some s \<Rightarrow> s)) @
     useCopyright_yearDisplay (startYear opts) (getFullYear now) @
     (case name opts of None \<Rightarrow> []
      | Some n \<Rightarrow> if n = [] then []
                  else (case separator opts of None \<Rightarrow> '' '' | Some s \<Rightarrow> s) @ n)"
  unfolding useCopyright_Some
  by (rule join_useCopyright_parts) (rule useCopyright_yearDisplay_not_Nil)

lemma useCopyright_yearDisplay_suffix:
  "\<exists>pre. useCopyright_yearDisplay sy y = pre @ number_toString y"
proof (cases "\<exists>s. sy = Some s \<and> s \<noteq> 0 \<and> s < y")
  case True
  then obtain s where "sy = Some s" "s \<noteq> 0" "s < y" by blast
  then have "useCopyright_yearDisplay sy y = (number_toString s @ ''-'') @ number_toString y"
    by (simp add: useCopyright_yearDisplay_def)
  then show ?thesis by blast
next
  case False
  then have "useCopyright_yearDisplay sy y = [] @ number_toString y"
    by (cases sy) (auto simp add: useCopyright_yearDisplay_def)
  then show ?thesis by blast
qed

section \<open>The claims\<close>

text \<open>
  C1, as amended. The year segment is the range \<open>startYear-currentYear\<close>, the start
  year in exact decimal digits, when \<open>startYear\<close> is present, is not the number \<open>0\<close>, is
  below the current year and has a magnitude of at most \<open>2^53\<close>; it is the current year
  alone when \<open>startYear\<close> is absent, equal to the current year or above it. With only
  \<open>startYear\<close> set, the hook returns the sign, a space and that segment.
\<close>

theorem year_display_rule:
  "(S \<noteq> 0 \<and> S < Y \<and> \<bar>S\<bar> \<le> 2 ^ 53 \<longrightarrow>
      useCopyright_yearDisplay (Some S) Y = number_toString S @ ''-'' @ number_toString Y) \<and>
   (Y \<le> T \<longrightarrow> useCopyright_yearDisplay (Some T) Y = number_toString Y) \<and>
   useCopyright_yearDisplay None Y = number_toString Y \<and>
   (S \<noteq> 0 \<and> S < getFullYear now \<and> \<bar>S\<bar> \<le> 2 ^ 53 \<longrightarrow>
      useCopyright now (Some (empty_options\<lparr>startYear := Some S\<rparr>)) =
        copyright_sign @ '' '' @ number_toString S @ ''-'' @ number_toString (getFullYear now)) \<and>
   (getFullYear now \<le> T \<longrightarrow>
      useCopyright now (Some (empty_options\<lparr>startYear := Some T\<rparr>)) =
        copyright_sign @ '' '' @ number_toString (getFullYear now))"
  by (simp add: useCopyright_closed useCopyright_yearDisplay_def empty_options_def
      copyright_sign_not_Nil)

theorem year_display_rule_witness:
  "(2020::int) \<noteq> 0 \<and> (2020::int) < 2026 \<and> \<bar>2020::int\<bar> \<le> 2 ^ 53 \<and> (2026::int) \<le> 2026 \<and>
   useCopyright_yearDisplay (Some 2020) 2026 = ''2020-2026'' \<and>
   useCopyright_yearDisplay (Some 2026) 2026 = ''2026'' \<and>
   useCopyright \<lparr>fullYear = 2026, month = 0, date = 1\<rparr>
       (Some (empty_options\<lparr>startYear := Some 2020\<rparr>)) = copyright_sign @ '' 2020-2026'' \<and>
   useCopyright \<lparr>fullYear = 2026, month = 0, date = 1\<rparr>
       (Some (empty_options\<lparr>startYear := Some 2026\<rparr>)) = copyright_sign @ '' 2026''"
  using year_display_rule [of 2020 2026 2026 "\<lparr>fullYear = 2026, month = 0, date = 1\<rparr>"]
  by (simp add: getFullYear_def number_toString_2020 number_toString_2026)

text \<open>
  C1 as it is written fails at \<open>startYear = 0\<close> in the year 2024: \<open>0\<close> is present and
  below 2024, yet the segment is \<open>2024\<close> and not \<open>0-2024\<close>.
\<close>

theorem year_display_rule_counterexample:
  "(0::int) < getFullYear \<lparr>fullYear = 2024, month = 0, date = 1\<rparr> \<and>
   useCopyright_yearDisplay (Some 0) 2024 = ''2024'' \<and>
   useCopyright_yearDisplay (Some 0) 2024 \<noteq> ''0-2024'' \<and>
   useCopyright \<lparr>fullYear = 2024, month = 0, date = 1\<rparr>
       (Some (empty_options\<lparr>startYear := Some 0\<rparr>)) = copyright_sign @ '' 2024'' \<and>
   useCopyright \<lparr>fullYear = 2024, month = 0, date = 1\<rparr>
       (Some (empty_options\<lparr>startYear := Some 0\<rparr>)) \<noteq> copyright_sign @ '' 0-2024''"
  by code_simp

text \<open>
  C2. The hook's string and the component's text are the ordered parts prefix, year
  display and name, without the empty and the absent ones, the first kept part followed
  by each further one behind a separator. With the name \<open>X\<close> and the separator \<open>-\<close>
  in the year 2024 the result is the sign, then \<open>-2024-X\<close>.
\<close>

theorem assembly_rule:
  "useCopyright now (Some opts) =
     (case filter (\<lambda>s. s \<noteq> [])
             ([case prefix opts of None \<Rightarrow> copyright_sign | Some p \<Rightarrow> p,
               useCopyright_yearDisplay (startYear opts) (getFullYear now)] @
              (case name opts of None \<Rightarrow> [] | Some n \<Rightarrow> [n])) of
        [] \<Rightarrow> []
      | x # xs \<Rightarrow>
          x @ concat (map (\<lambda>s. (case separator opts of None \<Rightarrow> '' '' | Some s \<Rightarrow> s) @ s) xs)) \<and>
   children (Copyright now props) =
     (case filter (\<lambda>s. s \<noteq> [])
             ([case prefix_prop props of None \<Rightarrow> copyright_sign | Some p \<Rightarrow> p,
               Copyright_yearDisplay (startYear_prop props) (getFullYear now)] @
              (case name_prop props of None \<Rightarrow> [] | Some n \<Rightarrow> [n])) of
        [] \<Rightarrow> []
      | x # xs \<Rightarrow>
          x @ concat (map (\<lambda>s. (case separator_prop props of None \<Rightarrow> '' '' | Some s \<Rightarrow> s) @ s) xs)) \<and>
   useCopyright (now\<lparr>fullYear := 2024\<rparr>)
       (Some (empty_options\<lparr>name := Some ''X'', separator := Some ''-''\<rparr>)) =
     copyright_sign @ ''-2024-X''"
proof (intro conjI)
  let ?yd = "useCopyright_yearDisplay (startYear opts) (getFullYear now)"
  have yd: "?yd \<noteq> []" by (rule useCopyright_yearDisplay_not_Nil)
  show "useCopyright now (Some opts) =
     (case filter (\<lambda>s. s \<noteq> [])
             ([case prefix opts of None \<Rightarrow> copyright_sign | Some p \<Rightarrow> p, ?yd] @
              (case name opts of None \<Rightarrow> [] | Some n \<Rightarrow> [n])) of
        [] \<Rightarrow> []
      | x # xs \<Rightarrow>
          x @ concat (map (\<lambda>s. (case separator opts of None \<Rightarrow> '' '' | Some s \<Rightarrow> s) @ s) xs))"
    unfolding useCopyright_closed using yd
    by (cases "name opts") simp_all
next
  let ?yd = "Copyright_yearDisplay (startYear_prop props) (getFullYear now)"
  have yd: "?yd \<noteq> []" by (rule Copyright_yearDisplay_not_Nil)
  show "children (Copyright now props) =
     (case filter (\<lambda>s. s \<noteq> [])
             ([case prefix_prop props of None \<Rightarrow> copyright_sign | Some p \<Rightarrow> p, ?yd] @
              (case name_prop props of None \<Rightarrow> [] | Some n \<Rightarrow> [n])) of
        [] \<Rightarrow> []
      | x # xs \<Rightarrow>
          x @ concat (map (\<lambda>s. (case separator_prop props of None \<Rightarrow> '' '' | Some s \<Rightarrow> s) @ s) xs))"
    unfolding children_Copyright join_Copyright_parts [OF yd] using yd
    by (cases "name_prop props") simp_all
next
  show "useCopyright (now\<lparr>fullYear := 2024\<rparr>)
       (Some (empty_options\<lparr>name := Some ''X'', separator := Some ''-''\<rparr>)) =
     copyright_sign @ ''-2024-X''"
    by (simp add: useCopyright_closed useCopyright_yearDisplay_def empty_options_def
        getFullYear_def number_toString_2024 copyright_sign_not_Nil)
qed

text \<open>
  C3. With no options, or with the empty options object, the hook returns the
  copyright sign, a space and the current year in decimal.
\<close>

theorem default_formatting:
  "useCopyright now None = copyright_sign @ '' '' @ number_toString (getFullYear now) \<and>
   useCopyright now (Some empty_options) =
     copyright_sign @ '' '' @ number_toString (getFullYear now)"
  by (simp add: useCopyright_None useCopyright_closed useCopyright_yearDisplay_def
      empty_options_def copyright_sign_not_Nil)

text \<open>
  C4, as amended. With only a name set, and the name not empty, the hook returns the
  sign, a space, the current year, a space and the name.
\<close>

theorem name_formatting:
  "N \<noteq> [] \<Longrightarrow>
   useCopyright now (Some (empty_options\<lparr>name := Some N\<rparr>)) =
     copyright_sign @ '' '' @ number_toString (getFullYear now) @ '' '' @ N"
  by (simp add: useCopyright_closed useCopyright_yearDisplay_def empty_options_def
      copyright_sign_not_Nil)

theorem name_formatting_witness:
  "''Acme Inc'' \<noteq> [] \<and>
   useCopyright \<lparr>fullYear = 2026, month = 0, date = 1\<rparr>
       (Some (empty_options\<lparr>name := Some ''Acme Inc''\<rparr>)) =
     copyright_sign @ '' 2026 Acme Inc''"
  using name_formatting [of "''Acme Inc''" "\<lparr>fullYear = 2026, month = 0, date = 1\<rparr>"]
  by (simp add: getFullYear_def number_toString_2026)

text \<open>
  C4 as it is written fails for the empty name: the filter drops it, and the result
  ends with the year, with no space behind it.
\<close>

theorem name_formatting_counterexample:
  "useCopyright \<lparr>fullYear = 2024, month = 0, date = 1\<rparr>
       (Some (empty_options\<lparr>name := Some []\<rparr>)) = copyright_sign @ '' 2024'' \<and>
   useCopyright \<lparr>fullYear = 2024, month = 0, date = 1\<rparr>
       (Some (empty_options\<lparr>name := Some []\<rparr>)) \<noteq>
     copyright_sign @ '' '' @ ''2024'' @ '' '' @ []"
  by code_simp

text \<open>
  C5. With the empty string as prefix, the prefix is not among the kept parts: they
  are the parts kept of year display and name alone. The result starts with the year
  display; one separator and the name follow when the name is present and not empty,
  and nothing follows otherwise. No separator stands before the year display, and none
  is doubled.
\<close>

theorem empty_prefix_omitted:
  "prefix opts = Some [] \<Longrightarrow>
   useCopyright_parts [] (useCopyright_yearDisplay (startYear opts) (getFullYear now)) (name opts) =
     filter ToBoolean
       [Some (useCopyright_yearDisplay (startYear opts) (getFullYear now)), name opts] \<and>
   useCopyright now (Some opts) =
     useCopyright_yearDisplay (startYear opts) (getFullYear now) @
     (case name opts of None \<Rightarrow> []
      | Some n \<Rightarrow> if n = [] then []
                  else (case separator opts of None \<Rightarrow> '' '' | Some s \<Rightarrow> s) @ n)"
  by (simp add: useCopyright_closed useCopyright_parts_def ToBoolean_def)

theorem empty_prefix_omitted_witness:
  "prefix \<lparr>prefix = Some [], name = Some ''X'', startYear = None, separator = Some ''-''\<rparr> =
     Some [] \<and>
   useCopyright_parts [] ''2024'' (Some ''X'') = [Some ''2024'', Some ''X''] \<and>
   useCopyright \<lparr>fullYear = 2024, month = 0, date = 1\<rparr>
       (Some \<lparr>prefix = Some [], name = Some ''X'', startYear = None, separator = Some ''-''\<rparr>) =
     ''2024-X''"
  using empty_prefix_omitted
    [of "\<lparr>prefix = Some [], name = Some ''X'', startYear = None, separator = Some ''-''\<rparr>"
        "\<lparr>fullYear = 2024, month = 0, date = 1\<rparr>"]
  by (simp add: getFullYear_def useCopyright_yearDisplay_def number_toString_2024 ToBoolean_def)

text \<open>
  C6. Every exported function returns a value on every input: the hook a string, the
  two components an element that carries the requested tag (\<open>span\<close> when none is
  given), the class name and style passed in and a text child, \<open>useAutoYear\<close> the
  year. The decimal printing of the year, the one recursion below them, returns a
  string that is not empty for every integer.
\<close>

theorem entry_points_total:
  "(\<exists>txt. useCopyright now options_arg = txt \<and> txt \<noteq> []) \<and>
   (\<exists>y. useAutoYear now = y) \<and>
   (\<exists>e. AutoYear now aprops = e \<and>
        element_type e = (case as_tag aprops of None \<Rightarrow> ''span'' | Some t \<Rightarrow> t) \<and>
        props_className e = className aprops \<and> props_style e = style aprops \<and>
        children e = number_toString (getFullYear now)) \<and>
   (\<exists>e. Copyright now cprops = e \<and>
        element_type e = (case as_tag cprops of None \<Rightarrow> ''span'' | Some t \<Rightarrow> t) \<and>
        props_className e = className cprops \<and> props_style e = style cprops \<and>
        children e \<noteq> []) \<and>
   (\<exists>digits. number_toString i = digits \<and> digits \<noteq> [])"
proof (intro conjI)
  have "useCopyright now (Some opts) \<noteq> []" for opts
    unfolding useCopyright_closed by (simp add: useCopyright_yearDisplay_not_Nil)
  then have "useCopyright now options_arg \<noteq> []"
    by (cases options_arg) (simp_all add: useCopyright_None)
  then show "\<exists>txt. useCopyright now options_arg = txt \<and> txt \<noteq> []" by simp
next
  show "\<exists>y. useAutoYear now = y" by simp
next
  show "\<exists>e. AutoYear now aprops = e \<and>
        element_type e = (case as_tag aprops of None \<Rightarrow> ''span'' | Some t \<Rightarrow> t) \<and>
        props_className e = className aprops \<and> props_style e = style aprops \<and>
        children e = number_toString (getFullYear now)"
    by (simp add: AutoYear_def createElement_def Let_def)
next
  have "children (Copyright now cprops) \<noteq> []"
    unfolding children_Copyright
    by (simp add: join_Copyright_parts Copyright_yearDisplay_not_Nil)
  then show "\<exists>e. Copyright now cprops = e \<and>
        element_type e = (case as_tag cprops of None \<Rightarrow> ''span'' | Some t \<Rightarrow> t) \<and>
        props_className e = className cprops \<and> props_style e = style cprops \<and>
        children e \<noteq> []"
    by (simp add: Copyright_def createElement_def Let_def)
next
  show "\<exists>digits. number_toString i = digits \<and> digits \<noteq> []"
    by (simp add: number_toString_not_Nil)
qed

text \<open>
  C7, as amended. The hook and the components read the year from the host's clock in
  their own bodies. Their results depend on the clock through its year alone: on two
  clock readings of the same year, with the same options or props, each of them returns
  the same value.
\<close>

theorem same_year_same_output:
  "getFullYear now1 = getFullYear now2 \<Longrightarrow>
   useCopyright now1 options_arg = useCopyright now2 options_arg \<and>
   Copyright now1 cprops = Copyright now2 cprops \<and>
   AutoYear now1 aprops = AutoYear now2 aprops \<and>
   useAutoYear now1 = useAutoYear now2"
  by (simp add: useCopyright_def Copyright_def AutoYear_def useAutoYear_def)

theorem same_year_same_output_witness:
  "getFullYear \<lparr>fullYear = 2024, month = 0, date = 1\<rparr> =
     getFullYear \<lparr>fullYear = 2024, month = 11, date = 31\<rparr> \<and>
   \<lparr>fullYear = 2024, month = 0, date = 1\<rparr> \<noteq> \<lparr>fullYear = 2024, month = 11, date = 31\<rparr> \<and>
   useCopyright \<lparr>fullYear = 2024, month = 0, date = 1\<rparr> None =
     useCopyright \<lparr>fullYear = 2024, month = 11, date = 31\<rparr> None"
  using same_year_same_output
    [of "\<lparr>fullYear = 2024, month = 0, date = 1\<rparr>" "\<lparr>fullYear = 2024, month = 11, date = 31\<rparr>" None]
  by (simp add: getFullYear_def)

text \<open>
  C7 as it is written fails: the year is not handed to the hook. Two calls with the
  same argument, one on a clock in 2024 and one on a clock in 2025, return different
  strings.
\<close>

theorem same_year_same_output_counterexample:
  "useCopyright \<lparr>fullYear = 2024, month = 0, date = 1\<rparr> None \<noteq>
     useCopyright \<lparr>fullYear = 2025, month = 0, date = 1\<rparr> None"
  by code_simp

text \<open>
  C8. The text child of the element that \<open>Copyright\<close> returns is the string that
  \<open>useCopyright\<close> returns for the same prefix, name, start year and separator on the
  same clock reading.
\<close>

theorem component_hook_agreement:
  "children (Copyright now props) =
     useCopyright now
       (Some \<lparr>prefix = prefix_prop props, name = name_prop props,
              startYear = startYear_prop props, separator = separator_prop props\<rparr>)"
  by (simp add: children_Copyright useCopyright_Some Copyright_parts_def
      useCopyright_parts_def Copyright_yearDisplay_def useCopyright_yearDisplay_def)

text \<open>
  C9. In a year above 0, a start year of 0 gives no range: the year display of the
  hook and of the component is the current year alone, and the hook returns what it
  returns with no start year.
\<close>

theorem startYear_zero_no_range:
  "0 < getFullYear now \<Longrightarrow> startYear opts = Some 0 \<Longrightarrow>
   useCopyright_yearDisplay (startYear opts) (getFullYear now) =
     number_toString (getFullYear now) \<and>
   Copyright_yearDisplay (startYear opts) (getFullYear now) =
     number_toString (getFullYear now) \<and>
   useCopyright now (Some opts) = useCopyright now (Some (opts\<lparr>startYear := None\<rparr>))"
  by (simp add: useCopyright_closed useCopyright_yearDisplay_def Copyright_yearDisplay_def
      split: option.split)

theorem startYear_zero_no_range_witness:
  "(0::int) < getFullYear \<lparr>fullYear = 2024, month = 0, date = 1\<rparr> \<and>
   startYear (empty_options\<lparr>startYear := Some 0\<rparr>) = Some 0 \<and>
   useCopyright_yearDisplay (Some 0) 2024 = ''2024'' \<and>
   Copyright_yearDisplay (Some 0) 2024 = ''2024'' \<and>
   useCopyright \<lparr>fullYear = 2024, month = 0, date = 1\<rparr>
       (Some (empty_options\<lparr>startYear := Some 0\<rparr>)) =
     useCopyright \<lparr>fullYear = 2024, month = 0, date = 1\<rparr> (Some empty_options)"
  using startYear_zero_no_range
    [of "\<lparr>fullYear = 2024, month = 0, date = 1\<rparr>" "empty_options\<lparr>startYear := Some 0\<rparr>"]
  by (simp add: getFullYear_def empty_options_def number_toString_2024)

text \<open>
  C10. Whatever the prefix, the name and the separator are, the year display is one of
  the kept parts, the hook's string is not empty and holds the year display between
  what comes before and after it, and the year display ends with the decimal current
  year, which is not empty.
\<close>

theorem year_always_present:
  "Some (useCopyright_yearDisplay (startYear opts) (getFullYear now)) \<in>
     set (useCopyright_parts p
            (useCopyright_yearDisplay (startYear opts) (getFullYear now)) n) \<and>
   useCopyright now (Some opts) \<noteq> [] \<and>
   (\<exists>pre post. useCopyright now (Some opts) =
      pre @ useCopyright_yearDisplay (startYear opts) (getFullYear now) @ post) \<and>
   (\<exists>pre. useCopyright_yearDisplay (startYear opts) (getFullYear now) =
      pre @ number_toString (getFullYear now)) \<and>
   number_toString (getFullYear now) \<noteq> []"
proof (intro conjI)
  let ?yd = "useCopyright_yearDisplay (startYear opts) (getFullYear now)"
  have yd: "?yd \<noteq> []" by (rule useCopyright_yearDisplay_not_Nil)
  show "Some ?yd \<in> set (useCopyright_parts p ?yd n)"
    using yd by (simp add: useCopyright_parts_def ToBoolean_def)
  show "useCopyright now (Some opts) \<noteq> []"
    unfolding useCopyright_closed using yd by simp
  show "\<exists>pre post. useCopyright now (Some opts) = pre @ ?yd @ post"
    unfolding useCopyright_closed by blast
  show "\<exists>pre. ?yd = pre @ number_toString (getFullYear now)"
    by (rule useCopyright_yearDisplay_suffix)
  show "number_toString (getFullYear now) \<noteq> []"
    by (rule number_toString_not_Nil)
qed

end
